theory Spec2Isabelle
  imports Main "HOL-Library.Char_ord" "HOL-Library.List_Lexorder"
begin

section \<open>go-json2csv: the path resolver, the flatten-target detector and Convert\<close>

text \<open>
  The development follows the three source files of package \<open>json2csv\<close>:
  \<open>types.go\<close> (Field, Options, the standard transformers), \<open>utils.go\<close>
  (valueToString, getFlattenArrayPath, getValueByDotPath) and \<open>convert.go\<close> (Convert).
  The JSON decoder and the CSV writer belong to Go's standard library; they appear here
  through what Convert observes of them.
\<close>

subsection \<open>Helpers of package strings\<close>

text \<open>\<open>strings.HasPrefix(s, prefix)\<close>.\<close>

fun HasPrefix :: "string \<Rightarrow> string \<Rightarrow> bool" where
  "HasPrefix s [] = True"
| "HasPrefix [] (p # ps) = False"
| "HasPrefix (c # cs) (p # ps) = (c = p \<and> HasPrefix cs ps)"

text \<open>\<open>strings.HasSuffix(s, suffix)\<close>.\<close>

definition HasSuffix :: "string \<Rightarrow> string \<Rightarrow> bool" where
  "HasSuffix s suffix = HasPrefix (rev s) (rev suffix)"

text \<open>
  \<open>strings.Index(s, substr)\<close>: the position of the first occurrence of \<open>substr\<close>.
  Go returns \<open>-1\<close> when there is none; that is \<open>None\<close> here.
\<close>

fun Index :: "string \<Rightarrow> string \<Rightarrow> nat option" where
  "Index [] substr = (if substr = [] then Some 0 else None)"
| "Index (c # cs) substr =
     (if HasPrefix (c # cs) substr then Some 0 else map_option Suc (Index cs substr))"

text \<open>
  \<open>strings.Split(s, sep)\<close> for a separator of one character: the pieces between the
  separators, empty pieces included; the result is never empty.
\<close>

fun Split :: "string \<Rightarrow> char \<Rightarrow> string list" where
  "Split [] sep = [[]]"
| "Split (c # cs) sep =
     (if c = sep then [] # Split cs sep
      else (case Split cs sep of [] \<Rightarrow> [[c]] | piece # pieces \<Rightarrow> (c # piece) # pieces))"

subsection \<open>Decoded values\<close>

text \<open>
  The decoder runs with \<open>UseNumber\<close>, so a value read from the input has one of six
  dynamic types: \<open>nil\<close>, \<open>string\<close>, \<open>json.Number\<close> (the literal's text), \<open>bool\<close>,
  \<open>map[string]interface{}\<close> and \<open>[]interface{}\<close>. A Go map has each key once; it is
  an association list here, read with \<open>map_of\<close>.
\<close>

datatype gvalue =
    VNil
  | VString string
  | VNumber string
  | VBool bool
  | VMap "(string \<times> gvalue) list"
  | VSlice "gvalue list"

type_synonym gomap = "(string \<times> gvalue) list"

text \<open>
  \<open>fmt.Sprintf("%v", v)\<close> on such a value: a map prints as \<open>map[k:v k:v]\<close> with its keys
  in increasing order, a slice as \<open>[v v]\<close>, \<open>nil\<close> as \<open><nil>\<close>.
\<close>

fun join_space :: "string list \<Rightarrow> string" where
  "join_space [] = []"
| "join_space [s] = s"
| "join_space (s # t # ss) = s @ '' '' @ join_space (t # ss)"

fun fmt_v :: "gvalue \<Rightarrow> string"
  and fmt_entries :: "(string \<times> gvalue) list \<Rightarrow> (string \<times> string) list" where
  "fmt_v VNil = ''<nil>''"
| "fmt_v (VString s) = s"
| "fmt_v (VNumber s) = s"
| "fmt_v (VBool b) = (if b then ''true'' else ''false'')"
| "fmt_v (VMap m) =
     ''map['' @ join_space (map (\<lambda>(k, s). k @ '':'' @ s) (sort_key fst (fmt_entries m))) @ '']''"
| "fmt_v (VSlice xs) = ''['' @ join_space (map fmt_v xs) @ '']''"
| "fmt_entries [] = []"
| "fmt_entries ((k, v) # m) = (k, fmt_v v) # fmt_entries m"

subsection \<open>types.go\<close>

text \<open>
  A Transformer takes the value found at the field's path and the original record, and
  returns the transformed value or an error (\<open>Inl\<close>, with its message).
\<close>

type_synonym Transformer = "gvalue \<Rightarrow> gomap \<Rightarrow> string + gvalue"

record Field =
  JSONPath :: string
  CSVHeader :: string
  Transformer :: "Transformer option"

text \<open>
  \<open>Delimiter\<close> is a \<open>rune\<close> (int32). No arithmetic is done on it, only comparisons, so
  it is an \<open>int\<close>; the zero value is \<open>0\<close> and the comma is \<open>44\<close>.
\<close>

type_synonym rune = int

record Options =
  Fields :: "Field list"
  Delimiter :: rune
  AddHeader :: bool

definition DefaultDelimiter :: rune where
  "DefaultDelimiter = 44"

text \<open>BoolToYesNo: \<open>nil\<close> becomes the empty string, a bool "Yes" or "No", the rest is kept.\<close>

fun BoolToYesNo :: Transformer where
  "BoolToYesNo VNil originalRecord = Inr (VString '''')"
| "BoolToYesNo (VBool b) originalRecord = (if b then Inr (VString ''Yes'') else Inr (VString ''No''))"
| "BoolToYesNo v originalRecord = Inr v"

text \<open>
  ItemsSummaryTransformer: "Null Array" for \<open>nil\<close>, "Empty Array" or the number of
  items for a slice, and the dynamic type's name (\<open>%T\<close>) for anything else.
  (FormatUnixTimestamp formats a time and is not needed below.)
\<close>

fun decimal :: "nat \<Rightarrow> string" where
  "decimal n =
     (if n < 10 then [''0123456789'' ! n]
      else decimal (n div 10) @ [''0123456789'' ! (n mod 10)])"

declare decimal.simps [simp del]

fun fmt_T :: "gvalue \<Rightarrow> string" where
  "fmt_T VNil = ''<nil>''"
| "fmt_T (VString s) = ''string''"
| "fmt_T (VNumber s) = ''json.Number''"
| "fmt_T (VBool b) = ''bool''"
| "fmt_T (VMap m) = ''map[string]interface {}''"
| "fmt_T (VSlice xs) = ''[]interface {}''"

fun ItemsSummaryTransformer :: Transformer where
  "ItemsSummaryTransformer VNil originalRecord = Inr (VString ''Null Array'')"
| "ItemsSummaryTransformer (VSlice items) originalRecord =
     (if length items = 0 then Inr (VString ''Empty Array'')
      else Inr (VString (decimal (length items) @ '' Items'')))"
| "ItemsSummaryTransformer v originalRecord = Inr (VString (''Unexpected Type: '' @ fmt_T v))"

subsection \<open>utils.go\<close>

text \<open>
  valueToString. Its \<open>float64\<close>, integer and complex cases are reached only by a
  transformer's result of such a type; values of the decoder never have them.
\<close>

fun valueToString :: "gvalue \<Rightarrow> string" where
  "valueToString VNil = ''''"
| "valueToString (VString v) = v"
| "valueToString (VBool v) = (if v then ''true'' else ''false'')"
| "valueToString (VNumber v) = v"
| "valueToString v = fmt_v v"

text \<open>
  getFlattenArrayPath: the text before the first \<open>[*]\<close> of the first field that has one,
  without one trailing dot; the empty string when no field has one.
\<close>

fun getFlattenArrayPath :: "Field list \<Rightarrow> string" where
  "getFlattenArrayPath [] = ''''"
| "getFlattenArrayPath (field # rest) =
     (case Index (JSONPath field) ''[*]'' of
        Some starIndex \<Rightarrow>
          (let basePath = take starIndex (JSONPath field)
           in if HasSuffix basePath ''.'' then butlast basePath else basePath)
      | None \<Rightarrow> getFlattenArrayPath rest)"

text \<open>The errors of the package, one constructor for each \<open>return\<close> of an error.\<close>

datatype token = Delim char | Scalar gvalue

datatype error =
    InvalidDelim
  | EmptyKey nat
  | WriteHeaderFailed error
  | InitialTokenFailed
  | ExpectedArrayStart token
  | FlatteningRequired
  | DecodeFailed
  | FlattenArrayFailed string error
  | NotAnArray string gvalue
  | ElementNotObject string nat gvalue
  | ItemValueFailed string string error
  | RecordValueFailed string error
  | TransformFailed string string
  | WriteRowFailed error
  | UnexpectedEOF
  | FinalTokenFailed
  | ExpectedArrayEnd token

text \<open>
  The loop of getValueByDotPath over \<open>keys\<close>: \<open>i\<close> is the index of the key at the head,
  so \<open>i < len(keys)-1\<close> says that more keys follow it.
\<close>

fun traverse :: "nat \<Rightarrow> gvalue \<Rightarrow> string list \<Rightarrow> error + gvalue" where
  "traverse i currentValue [] = Inr currentValue"
| "traverse i currentValue (key # keys) =
     (if key = [] then Inl (EmptyKey i)
      else (case currentValue of
          VMap m \<Rightarrow>
            (case map_of m key of
               None \<Rightarrow> Inr VNil
             | Some nextValue \<Rightarrow> traverse (Suc i) nextValue keys)
        | VNil \<Rightarrow> Inr VNil
        | _ \<Rightarrow> if keys \<noteq> [] then Inr VNil else traverse (Suc i) currentValue keys))"

definition getValueByDotPath :: "gomap \<Rightarrow> string \<Rightarrow> error + gvalue" where
  "getValueByDotPath data path =
     (if path = [] then Inr (VMap data)
      else traverse 0 (VMap data) (Split path CHR ''.''))"

subsection \<open>The standard library, as Convert observes it\<close>

text \<open>
  \<open>encoding/csv\<close>. A Writer has its \<open>Comma\<close> and, here, the records it has accepted so
  far, in order. \<open>Write\<close> refuses every record while \<open>Comma\<close> is not a valid delimiter
  (\<open>validDelim\<close>: not \<open>0\<close>, not the quote, not CR or LF, a valid rune, not
  \<open>utf8.RuneError\<close>). The underlying \<open>io.Writer\<close> is taken to accept every write, so
  \<open>Flush\<close> and \<open>Error\<close> report nothing.
\<close>

record csv_Writer =
  Comma :: rune
  written :: "string list list"

definition ValidRune :: "rune \<Rightarrow> bool" where
  "ValidRune r = ((0 \<le> r \<and> r < 0xD800) \<or> (0xDFFF < r \<and> r \<le> 0x10FFFF))"

definition validDelim :: "rune \<Rightarrow> bool" where
  "validDelim r = (r \<noteq> 0 \<and> r \<noteq> 34 \<and> r \<noteq> 13 \<and> r \<noteq> 10 \<and> ValidRune r \<and> r \<noteq> 0xFFFD)"

definition csv_NewWriter :: csv_Writer where
  "csv_NewWriter = \<lparr>Comma = 44, written = []\<rparr>"

definition csv_Write :: "csv_Writer \<Rightarrow> string list \<Rightarrow> error + csv_Writer" where
  "csv_Write w row =
     (if validDelim (Comma w) then Inr (w\<lparr>written := written w @ [row]\<rparr>)
      else Inl InvalidDelim)"

text \<open>
  \<open>encoding/json\<close>. Convert calls \<open>Token\<close> once, then \<open>More\<close> and \<open>Decode\<close> in turn,
  then \<open>Token\<close> once more. An input is what these calls give on it: the result of the
  first \<open>Token\<close> (end of input, an error, or a token), the elements that \<open>More\<close>
  announces, each a JSON value or text that is none, and the result of the \<open>Token\<close>
  after the last element. The text \<open>[{"a":1}]\<close> is
  \<open>\<lparr>first_token = Token (Delim CHR ''[''), elements = [Elem (VMap [(''a'', VNumber ''1'')])],
  closing_token = Token (Delim CHR '']'')\<rparr>\<close>; the empty text has
  \<open>first_token = TokenEOF\<close>.
\<close>

datatype token_result = TokenEOF | TokenError | Token token

datatype element = Malformed | Elem gvalue

record input =
  first_token :: token_result
  elements :: "element list"
  closing_token :: token_result

text \<open>
  \<open>decoder.Decode(&originalRecord)\<close> into a \<open>map[string]interface{}\<close>: an object gives
  its map; \<open>null\<close> leaves the map \<open>nil\<close>, which reads like the empty map; any other
  value is an \<open>UnmarshalTypeError\<close>, and text that is no value a syntax error.
\<close>

fun Decode :: "element \<Rightarrow> error + gomap" where
  "Decode Malformed = Inl DecodeFailed"
| "Decode (Elem (VMap m)) = Inr m"
| "Decode (Elem VNil) = Inr []"
| "Decode (Elem v) = Inl DecodeFailed"

subsection \<open>convert.go\<close>

text \<open>
  One field of one row (the body of the loop over \<open>options.Fields\<close>): the value comes
  from the array item when the path has \<open>[*]\<close>, from the original record otherwise.
\<close>

definition fieldValue :: "Field \<Rightarrow> gomap \<Rightarrow> gomap \<Rightarrow> error + gvalue" where
  "fieldValue field originalRecord itemData =
     (case Index (JSONPath field) ''[*]'' of
        Some starIndex \<Rightarrow>
          (let pathAfterStar = drop (starIndex + length ''[*]'') (JSONPath field);
               pathAfterStar = (if HasPrefix pathAfterStar ''.'' then drop 1 pathAfterStar
                                else pathAfterStar)
           in case getValueByDotPath itemData pathAfterStar of
                Inl getValErr \<Rightarrow> Inl (ItemValueFailed (JSONPath field) pathAfterStar getValErr)
              | Inr v \<Rightarrow> Inr v)
      | None \<Rightarrow>
          (case getValueByDotPath originalRecord (JSONPath field) of
             Inl getValErr \<Rightarrow> Inl (RecordValueFailed (JSONPath field) getValErr)
           | Inr v \<Rightarrow> Inr v))"

definition fieldCell :: "Field \<Rightarrow> gomap \<Rightarrow> gomap \<Rightarrow> error + string" where
  "fieldCell field originalRecord itemData =
     (case fieldValue field originalRecord itemData of
        Inl err \<Rightarrow> Inl err
      | Inr v \<Rightarrow>
          (case Transformer field of
             None \<Rightarrow> Inr (valueToString v)
           | Some transform \<Rightarrow>
               (case transform v originalRecord of
                  Inl transformErr \<Rightarrow> Inl (TransformFailed (JSONPath field) transformErr)
                | Inr transformedValue \<Rightarrow> Inr (valueToString transformedValue))))"

text \<open>The row of one array item: the cells in the order of the fields, or the first error.\<close>

fun buildRow :: "Field list \<Rightarrow> gomap \<Rightarrow> gomap \<Rightarrow> error + string list" where
  "buildRow [] originalRecord itemData = Inr []"
| "buildRow (field # rest) originalRecord itemData =
     (case fieldCell field originalRecord itemData of
        Inl err \<Rightarrow> Inl err
      | Inr cell \<Rightarrow>
          (case buildRow rest originalRecord itemData of
             Inl err \<Rightarrow> Inl err
           | Inr cells \<Rightarrow> Inr (cell # cells)))"

text \<open>
  The loop over the array that fills \<open>itemsToProcess\<close>: maps are kept, \<open>nil\<close> items are
  skipped, anything else is an error with the item's index.
\<close>

fun collectItems :: "string \<Rightarrow> nat \<Rightarrow> gvalue list \<Rightarrow> error + gomap list" where
  "collectItems flattenArrayPath i [] = Inr []"
| "collectItems flattenArrayPath i (item # arr) =
     (case item of
        VMap itemMap \<Rightarrow>
          (case collectItems flattenArrayPath (Suc i) arr of
             Inl err \<Rightarrow> Inl err
           | Inr items \<Rightarrow> Inr (itemMap # items))
      | VNil \<Rightarrow> collectItems flattenArrayPath (Suc i) arr
      | _ \<Rightarrow> Inl (ElementNotObject flattenArrayPath i item))"

text \<open>The loop over \<open>itemsToProcess\<close>: a row is built, then written.\<close>

fun writeRows :: "Field list \<Rightarrow> gomap \<Rightarrow> gomap list \<Rightarrow> csv_Writer \<Rightarrow> error option \<times> csv_Writer" where
  "writeRows fs originalRecord [] csvWriter = (None, csvWriter)"
| "writeRows fs originalRecord (itemData # items) csvWriter =
     (case buildRow fs originalRecord itemData of
        Inl err \<Rightarrow> (Some err, csvWriter)
      | Inr csvRow \<Rightarrow>
          (case csv_Write csvWriter csvRow of
             Inl err \<Rightarrow> (Some (WriteRowFailed err), csvWriter)
           | Inr csvWriter' \<Rightarrow> writeRows fs originalRecord items csvWriter'))"

text \<open>
  The body of the loop over the records, after \<open>Decode\<close>: \<open>None\<close> is the loop going on
  (by \<open>continue\<close> or by reaching the end of the body), \<open>Some err\<close> is \<open>return err\<close>.
\<close>

definition processRecord :: "Field list \<Rightarrow> string \<Rightarrow> gomap \<Rightarrow> csv_Writer \<Rightarrow> error option \<times> csv_Writer" where
  "processRecord fs flattenArrayPath originalRecord csvWriter =
     (case getValueByDotPath originalRecord flattenArrayPath of
        Inl getArrErr \<Rightarrow> (Some (FlattenArrayFailed flattenArrayPath getArrErr), csvWriter)
      | Inr arrayValue \<Rightarrow>
          (case arrayValue of
             VNil \<Rightarrow> (None, csvWriter)
           | VSlice arr \<Rightarrow>
               (case collectItems flattenArrayPath 0 arr of
                  Inl err \<Rightarrow> (Some err, csvWriter)
                | Inr itemsToProcess \<Rightarrow>
                    if length itemsToProcess = 0 then (None, csvWriter)
                    else writeRows fs originalRecord itemsToProcess csvWriter)
           | _ \<Rightarrow> (Some (NotAnArray flattenArrayPath arrayValue), csvWriter)))"

text \<open>The loop \<open>for decoder.More()\<close>.\<close>

fun processRecords :: "Field list \<Rightarrow> string \<Rightarrow> element list \<Rightarrow> csv_Writer \<Rightarrow> error option \<times> csv_Writer" where
  "processRecords fs flattenArrayPath [] csvWriter = (None, csvWriter)"
| "processRecords fs flattenArrayPath (e # es) csvWriter =
     (case Decode e of
        Inl err \<Rightarrow> (Some err, csvWriter)
      | Inr originalRecord \<Rightarrow>
          (case processRecord fs flattenArrayPath originalRecord csvWriter of
             (Some err, csvWriter') \<Rightarrow> (Some err, csvWriter')
           | (None, csvWriter') \<Rightarrow> processRecords fs flattenArrayPath es csvWriter'))"

text \<open>
  Convert. The result is the error returned (\<open>None\<close> for \<open>nil\<close>) and the writer, whose
  \<open>written\<close> is what has reached the output when Convert returns (the deferred \<open>Flush\<close>
  runs on every return). The test of \<open>err\<close> after getFlattenArrayPath reads the \<open>err\<close>
  of the first \<open>Token\<close>, which is \<open>nil\<close> there, and never fires.
\<close>

definition Convert :: "input \<Rightarrow> Options \<Rightarrow> error option \<times> csv_Writer" where
  "Convert r options =
     (let delimiter = (if Delimiter options = 44 then DefaultDelimiter else Delimiter options);
          csvWriter = csv_NewWriter\<lparr>Comma := delimiter\<rparr>;
          addHeader = (if AddHeader options = False then False else True)
      in case (if addHeader then csv_Write csvWriter (map CSVHeader (Fields options))
               else Inr csvWriter) of
           Inl err \<Rightarrow> (Some (WriteHeaderFailed err), csvWriter)
         | Inr csvWriter \<Rightarrow>
             (case first_token r of
                TokenEOF \<Rightarrow> (None, csvWriter)
              | TokenError \<Rightarrow> (Some InitialTokenFailed, csvWriter)
              | Token tok \<Rightarrow>
                  if tok \<noteq> Delim CHR ''['' then (Some (ExpectedArrayStart tok), csvWriter)
                  else
                    (let flattenArrayPath = getFlattenArrayPath (Fields options);
                         isFlattening = (flattenArrayPath \<noteq> '''')
                     in if \<not> isFlattening then (Some FlatteningRequired, csvWriter)
                        else
                          (case processRecords (Fields options) flattenArrayPath (elements r) csvWriter of
                             (Some err, csvWriter) \<Rightarrow> (Some err, csvWriter)
                           | (None, csvWriter) \<Rightarrow>
                               (case closing_token r of
                                  TokenEOF \<Rightarrow> (Some UnexpectedEOF, csvWriter)
                                | TokenError \<Rightarrow> (Some FinalTokenFailed, csvWriter)
                                | Token tok \<Rightarrow>
                                    if tok \<noteq> Delim CHR '']''
                                    then (Some (ExpectedArrayEnd tok), csvWriter)
                                    else (None, csvWriter))))))"

subsection \<open>Inputs used below\<close>

text \<open>A well-formed array of the given elements, the empty input, a field without transformer.\<close>

definition json_array :: "element list \<Rightarrow> input" where
  "json_array es =
     \<lparr>first_token = Token (Delim CHR ''[''), elements = es,
      closing_token = Token (Delim CHR '']'')\<rparr>"

definition empty_input :: input where
  "empty_input = \<lparr>first_token = TokenEOF, elements = [], closing_token = TokenEOF\<rparr>"

definition plain :: "string \<Rightarrow> string \<Rightarrow> Field" where
  "plain path header = \<lparr>JSONPath = path, CSVHeader = header, Transformer = None\<rparr>"

text \<open>Scenario A of the specification: \<open>[{"id":1,"tags":["x","y"]}]\<close>.\<close>

definition scenarioA_record :: gomap where
  "scenarioA_record = [(''id'', VNumber ''1''), (''tags'', VSlice [VString ''x'', VString ''y''])]"

definition scenarioA_input :: input where
  "scenarioA_input = json_array [Elem (VMap scenarioA_record)]"

text \<open>Scenario C: \<open>[{"id":1,"items":[{"name":"a"},null,{"name":"c"}]}]\<close>.\<close>

definition scenarioC_record :: gomap where
  "scenarioC_record =
     [(''id'', VNumber ''1''),
      (''items'', VSlice [VMap [(''name'', VString ''a'')], VNil, VMap [(''name'', VString ''c'')]])]"

definition scenarioC_fields :: "Field list" where
  "scenarioC_fields = [plain ''id'' ''ID'', plain ''items[*].name'' ''Name'']"

text \<open>\<open>[{"items":[{"price":5.00}]}]\<close>, as in the example program's data.\<close>

definition price_record :: gomap where
  "price_record = [(''items'', VSlice [VMap [(''price'', VNumber ''5.00'')]])]"

definition price_fields :: "Field list" where
  "price_fields = [plain ''items[*].price'' ''Item Price'']"

section \<open>Lemmas\<close>

subsection \<open>The string helpers do what package strings does\<close>

lemma HasPrefix_iff: "HasPrefix s p \<longleftrightarrow> (\<exists>t. s = p @ t)"
  by (induction s p rule: HasPrefix.induct) auto

lemma Index_None_iff: "Index s sub = None \<longleftrightarrow> \<not> (\<exists>pre post. s = pre @ sub @ post)"
proof (induction s)
  case Nil
  then show ?case by auto
next
  case (Cons c cs)
  show ?case
  proof (cases "HasPrefix (c # cs) sub")
    case True
    then obtain t where "c # cs = sub @ t" by (auto simp: HasPrefix_iff)
    then have "c # cs = [] @ sub @ t" by simp
    then have "\<exists>pre post. c # cs = pre @ sub @ post" by blast
    with True show ?thesis by simp
  next
    case False
    have "(\<exists>pre post. c # cs = pre @ sub @ post) \<longleftrightarrow> (\<exists>pre post. cs = pre @ sub @ post)"
    proof
      assume "\<exists>pre post. c # cs = pre @ sub @ post"
      then obtain pre post where e: "c # cs = pre @ sub @ post" by blast
      show "\<exists>pre post. cs = pre @ sub @ post"
      proof (cases pre)
        case Nil
        with e False show ?thesis by (auto simp: HasPrefix_iff)
      next
        case (Cons a pre')
        with e have "cs = pre' @ sub @ post" by simp
        then show ?thesis by blast
      qed
    next
      assume "\<exists>pre post. cs = pre @ sub @ post"
      then obtain pre post where "cs = pre @ sub @ post" by blast
      then have "c # cs = (c # pre) @ sub @ post" by simp
      then show "\<exists>pre post. c # cs = pre @ sub @ post" by blast
    qed
    with False Cons show ?thesis by simp
  qed
qed

lemma Index_Some_take: "Index s sub = Some n \<Longrightarrow> s = take n s @ sub @ drop (n + length sub) s"
proof (induction s arbitrary: n)
  case Nil then show ?case by (auto split: if_splits)
next
  case (Cons c cs)
  then show ?case
    by (cases "HasPrefix (c # cs) sub") (auto simp: HasPrefix_iff)
qed

subsection \<open>The path resolver\<close>

text \<open>
  A path without empty segments never gives an error; on \<open>nil\<close> the traversal stops
  with \<open>nil\<close>; on a value that is neither a map nor \<open>nil\<close> it stops with \<open>nil\<close> while
  at least two keys are left, and gives the value itself when exactly one key is left.
\<close>

lemma traverse_no_error:
  "\<forall>key \<in> set keys. key \<noteq> [] \<Longrightarrow> \<exists>v. traverse i currentValue keys = Inr v"
proof (induction keys arbitrary: i currentValue)
  case Nil
  then show ?case by simp
next
  case (Cons key keys)
  then have IH: "\<And>i v. \<exists>u. traverse i v keys = Inr u" by simp
  from Cons.prems have k: "key \<noteq> []" by simp
  show ?case
  proof (cases currentValue)
    case (VMap m)
    then show ?thesis using k IH by (cases "map_of m key") simp_all
  qed (use k IH in \<open>simp_all\<close>)
qed

lemma getValueByDotPath_no_error:
  "\<forall>key \<in> set (Split path CHR ''.''). key \<noteq> [] \<Longrightarrow> \<exists>v. getValueByDotPath data path = Inr v"
  using traverse_no_error [of "Split path CHR ''.''" 0 "VMap data"]
  by (simp add: getValueByDotPath_def)

lemma traverse_absent_key:
  "key \<noteq> [] \<Longrightarrow> map_of m key = None \<Longrightarrow> traverse i (VMap m) (key # keys) = Inr VNil"
  by simp

lemma traverse_nil:
  "key \<noteq> [] \<Longrightarrow> traverse i VNil (key # keys) = Inr VNil"
  by simp

lemma traverse_non_map_more_keys:
  "key \<noteq> [] \<Longrightarrow> keys \<noteq> [] \<Longrightarrow> currentValue \<noteq> VNil \<Longrightarrow> \<forall>m. currentValue \<noteq> VMap m \<Longrightarrow>
     traverse i currentValue (key # keys) = Inr VNil"
  by (cases currentValue) simp_all

lemma traverse_non_map_last_key:
  "key \<noteq> [] \<Longrightarrow> currentValue \<noteq> VNil \<Longrightarrow> \<forall>m. currentValue \<noteq> VMap m \<Longrightarrow>
     traverse i currentValue [key] = Inr currentValue"
  by (cases currentValue) simp_all

subsection \<open>The detector and the rows\<close>

lemma getFlattenArrayPath_no_marker:
  "\<forall>f \<in> set fs. Index (JSONPath f) ''[*]'' = None \<Longrightarrow> getFlattenArrayPath fs = ''''"
  by (induction fs) auto

lemma Convert_effective_delimiter:
  "(if Delimiter options = 44 then DefaultDelimiter else Delimiter options) = Delimiter options"
  by (simp add: DefaultDelimiter_def)

lemma buildRow_cells:
  "buildRow fs originalRecord itemData = Inr row \<Longrightarrow>
     length row = length fs \<and> (\<forall>i < length fs. fieldCell (fs ! i) originalRecord itemData = Inr (row ! i))"
proof (induction fs arbitrary: row)
  case Nil
  then show ?case by simp
next
  case (Cons f fs)
  from Cons.prems obtain cell cells where
    c: "fieldCell f originalRecord itemData = Inr cell"
    and r: "buildRow fs originalRecord itemData = Inr cells"
    and row: "row = cell # cells"
    by (auto split: sum.splits)
  from Cons.IH [OF r] have
    len: "length cells = length fs"
    and cells: "\<forall>i < length fs. fieldCell (fs ! i) originalRecord itemData = Inr (cells ! i)"
    by simp_all
  show ?case
  proof (intro conjI allI impI)
    show "length row = length (f # fs)" using row len by simp
  next
    fix i assume "i < length (f # fs)"
    then show "fieldCell ((f # fs) ! i) originalRecord itemData = Inr (row ! i)"
      using c cells row by (cases i) simp_all
  qed
qed

lemma writeRows_rows:
  "writeRows fs originalRecord items w = (e, w') \<Longrightarrow>
     \<exists>rows. written w' = written w @ rows \<and>
       (\<forall>row \<in> set rows. \<exists>itemData \<in> set items. buildRow fs originalRecord itemData = Inr row)"
proof (induction items arbitrary: w)
  case Nil
  then show ?case by simp
next
  case (Cons itemData items)
  show ?case
  proof (cases "buildRow fs originalRecord itemData")
    case (Inl err)
    with Cons.prems show ?thesis by simp
  next
    case (Inr csvRow)
    show ?thesis
    proof (cases "validDelim (Comma w)")
      case False
      with Cons.prems Inr show ?thesis by (simp add: csv_Write_def)
    next
      case True
      let ?w1 = "w\<lparr>written := written w @ [csvRow]\<rparr>"
      from Cons.prems Inr True have "writeRows fs originalRecord items ?w1 = (e, w')"
        by (simp add: csv_Write_def)
      from Cons.IH [OF this] obtain rows where
        w: "written w' = written ?w1 @ rows"
        and b: "\<forall>row \<in> set rows. \<exists>itemData \<in> set items. buildRow fs originalRecord itemData = Inr row"
        by blast
      have "written w' = written w @ (csvRow # rows)" using w by simp
      moreover have "\<forall>row \<in> set (csvRow # rows).
          \<exists>it \<in> set (itemData # items). buildRow fs originalRecord it = Inr row"
        using b Inr by auto
      ultimately show ?thesis by blast
    qed
  qed
qed

lemma processRecord_rows:
  assumes "processRecord fs flattenArrayPath originalRecord w = (e, w')"
  shows "\<exists>rows. written w' = written w @ rows \<and>
       (\<forall>row \<in> set rows. \<exists>itemData. buildRow fs originalRecord itemData = Inr row)"
proof -
  have same: "w' = w \<Longrightarrow> ?thesis" by simp
  show ?thesis
  proof (cases "\<exists>arr items. getValueByDotPath originalRecord flattenArrayPath = Inr (VSlice arr)
                  \<and> collectItems flattenArrayPath 0 arr = Inr items \<and> items \<noteq> []")
    case True
    then obtain arr items where
      "getValueByDotPath originalRecord flattenArrayPath = Inr (VSlice arr)"
      "collectItems flattenArrayPath 0 arr = Inr items" "items \<noteq> []" by blast
    with assms have "writeRows fs originalRecord items w = (e, w')"
      by (simp add: processRecord_def)
    from writeRows_rows [OF this] show ?thesis by blast
  next
    case False
    with assms have "w' = w"
      by (auto simp: processRecord_def split: sum.splits gvalue.splits if_splits)
    then show ?thesis by (rule same)
  qed
qed

lemma fieldValue_no_marker:
  "Index (JSONPath field) ''[*]'' = None \<Longrightarrow>
     fieldValue field originalRecord itemData = fieldValue field originalRecord itemData'"
  by (simp add: fieldValue_def)

lemma fieldCell_no_marker:
  "Index (JSONPath field) ''[*]'' = None \<Longrightarrow>
     fieldCell field originalRecord itemData = fieldCell field originalRecord itemData'"
  using fieldValue_no_marker [of field originalRecord itemData itemData']
  by (simp add: fieldCell_def)


text \<open>
  A field with a transformer whose value is \<open>nil\<close>: the transformer is called with
  \<open>nil\<close> and the original record, and the cell is the rendering of its result.
\<close>

lemma transformer_on_nil_value:
  assumes row: "buildRow fs originalRecord itemData = Inr row"
    and i: "i < length fs"
    and tr: "Transformer (fs ! i) = Some transform"
    and nil: "fieldValue (fs ! i) originalRecord itemData = Inr VNil"
  shows "\<exists>v. transform VNil originalRecord = Inr v \<and> row ! i = valueToString v"
proof -
  from buildRow_cells [OF row] i
  have "fieldCell (fs ! i) originalRecord itemData = Inr (row ! i)" by simp
  with tr nil show ?thesis
    by (auto simp: fieldCell_def split: sum.splits)
qed

text \<open>
  Every row that Convert writes after the header is the row that buildRow gives for a
  record of the input and an item of its array.
\<close>

lemma processRecords_rows:
  "processRecords fs flattenArrayPath es w = (e, w') \<Longrightarrow>
     \<exists>rows. written w' = written w @ rows \<and>
       (\<forall>row \<in> set rows. \<exists>originalRecord itemData. buildRow fs originalRecord itemData = Inr row)"
proof (induction es arbitrary: w)
  case Nil
  then show ?case by simp
next
  case (Cons el es)
  show ?case
  proof (cases "Decode el")
    case (Inl err)
    with Cons.prems show ?thesis by simp
  next
    case (Inr originalRecord)
    obtain e1 w1 where p: "processRecord fs flattenArrayPath originalRecord w = (e1, w1)"
      by (cases "processRecord fs flattenArrayPath originalRecord w")
    from processRecord_rows [OF p] obtain rows1 where
      r1: "written w1 = written w @ rows1"
      and b1: "\<forall>row \<in> set rows1. \<exists>itemData. buildRow fs originalRecord itemData = Inr row"
      by blast
    show ?thesis
    proof (cases e1)
      case (Some err)
      with Cons.prems Inr p have "w' = w1" by simp
      moreover from b1 have "\<forall>row \<in> set rows1.
          \<exists>originalRecord itemData. buildRow fs originalRecord itemData = Inr row" by blast
      ultimately show ?thesis using r1 by blast
    next
      case None
      with Cons.prems Inr p have "processRecords fs flattenArrayPath es w1 = (e, w')" by simp
      from Cons.IH [OF this] obtain rows2 where
        r2: "written w' = written w1 @ rows2"
        and b2: "\<forall>row \<in> set rows2. \<exists>originalRecord itemData. buildRow fs originalRecord itemData = Inr row"
        by blast
      have "written w' = written w @ (rows1 @ rows2)" using r1 r2 by simp
      moreover have "\<forall>row \<in> set (rows1 @ rows2).
          \<exists>originalRecord itemData. buildRow fs originalRecord itemData = Inr row"
        using b1 b2 by (metis Un_iff set_append)
      ultimately show ?thesis by blast
    qed
  qed
qed

lemma Convert_rows:
  "\<exists>rows. written (snd (Convert r options)) =
       (if AddHeader options \<and> validDelim (Delimiter options)
        then [map CSVHeader (Fields options)] else []) @ rows \<and>
     (\<forall>row \<in> set rows. \<exists>originalRecord itemData.
         buildRow (Fields options) originalRecord itemData = Inr row)"
proof -
  let ?hdr = "if AddHeader options \<and> validDelim (Delimiter options)
        then [map CSVHeader (Fields options)] else []"
  let ?w0 = "\<lparr>Comma = Delimiter options, written = ?hdr\<rparr>"
  let ?path = "getFlattenArrayPath (Fields options)"
  have none: "written (snd (Convert r options)) = ?hdr \<Longrightarrow> ?thesis" by simp
  show ?thesis
  proof (cases "(AddHeader options \<longrightarrow> validDelim (Delimiter options))
      \<and> first_token r = Token (Delim CHR ''['') \<and> ?path \<noteq> []")
    case False
    then have "written (snd (Convert r options)) = ?hdr"
      by (auto simp: Convert_def Let_def Convert_effective_delimiter csv_NewWriter_def csv_Write_def
          split: token_result.splits)
    then show ?thesis by (rule none)
  next
    case True
    obtain e w' where p: "processRecords (Fields options) ?path (elements r) ?w0 = (e, w')"
      by (cases "processRecords (Fields options) ?path (elements r) ?w0")
    from True p have "written (snd (Convert r options)) = written w'"
      by (auto simp: Convert_def Let_def Convert_effective_delimiter csv_NewWriter_def csv_Write_def
          split: token_result.splits option.splits)
    with processRecords_rows [OF p] show ?thesis by simp
  qed
qed

section \<open>The claims\<close>

subsection \<open>C1: field lists without a marker\<close>

text \<open>
  Against C1 as stated. The header is written and the first token is read before the
  check for a marker:
  with a field list without \<open>[*]\<close> the header row reaches the output before the
  configuration error, and on the empty input there is no configuration error at all.
\<close>

theorem config_error_after_io_counterexample:
  "\<not> written (snd (Convert (json_array [])
        \<lparr>Fields = [plain ''id'' ''ID''], Delimiter = 44, AddHeader = True\<rparr>)) = [] \<and>
   \<not> fst (Convert empty_input
        \<lparr>Fields = [plain ''id'' ''ID''], Delimiter = 44, AddHeader = True\<rparr>) = Some FlatteningRequired"
  by (simp add: Let_def Convert_def json_array_def empty_input_def plain_def csv_NewWriter_def
      csv_Write_def validDelim_def ValidRune_def DefaultDelimiter_def)

text \<open>
  Claim C1, as amended. For every field list in which no field's JSONPath contains
  \<open>[*]\<close>, Convert writes no data row and decodes no record. It returns the error of the
  header write when the header is enabled and the delimiter is invalid; otherwise, with
  the header row written when AddHeader is true, it returns \<open>nil\<close> on the empty input,
  a format error when the first token cannot be read or is not \<open>[\<close>, and the
  configuration error when the first token is \<open>[\<close>.
\<close>

theorem Convert_without_marker:
  assumes "\<forall>f \<in> set (Fields options). Index (JSONPath f) ''[*]'' = None"
  shows "Convert r options =
    (if AddHeader options \<and> \<not> validDelim (Delimiter options)
     then (Some (WriteHeaderFailed InvalidDelim), \<lparr>Comma = Delimiter options, written = []\<rparr>)
     else
      (case first_token r of
         TokenEOF \<Rightarrow> None
       | TokenError \<Rightarrow> Some InitialTokenFailed
       | Token tok \<Rightarrow> if tok = Delim CHR ''['' then Some FlatteningRequired
                       else Some (ExpectedArrayStart tok),
       \<lparr>Comma = Delimiter options,
        written = (if AddHeader options then [map CSVHeader (Fields options)] else [])\<rparr>))"
  using getFlattenArrayPath_no_marker [OF assms]
  by (simp add: Let_def Convert_def Convert_effective_delimiter csv_NewWriter_def csv_Write_def
      split: token_result.splits)

theorem Convert_without_marker_witness:
  "Index (JSONPath (plain ''user_id'' ''User ID'')) ''[*]'' = None \<and>
   Convert (json_array [Elem (VMap scenarioC_record)])
     \<lparr>Fields = [plain ''user_id'' ''User ID''], Delimiter = 59, AddHeader = True\<rparr> =
     (Some FlatteningRequired, \<lparr>Comma = 59, written = [[''User ID'']]\<rparr>)"
proof -
  have h: "\<forall>f \<in> set (Fields \<lparr>Fields = [plain ''user_id'' ''User ID''], Delimiter = 59, AddHeader = True\<rparr>).
      Index (JSONPath f) ''[*]'' = None"
    by (simp add: plain_def)
  show ?thesis
    using Convert_without_marker [OF h, of "json_array [Elem (VMap scenarioC_record)]"]
    by (simp add: plain_def json_array_def validDelim_def ValidRune_def)
qed

subsection \<open>C2: Scenario A\<close>

text \<open>
  Against C2 as stated. The elements of \<open>tags\<close> are strings; Convert accepts only maps and \<open>nil\<close> as
  elements of the flattened array and returns an error at the first string.
\<close>

theorem scenarioA_counterexample:
  "Convert scenarioA_input
     \<lparr>Fields = [plain ''id'' ''id'', plain ''tags[*]'' ''tags''], Delimiter = 44, AddHeader = True\<rparr> =
   (Some (ElementNotObject ''tags'' 0 (VString ''x'')),
    \<lparr>Comma = 44, written = [[''id'', ''tags'']]\<rparr>)"
  by (simp add: Let_def Convert_def scenarioA_input_def scenarioA_record_def json_array_def plain_def
      csv_NewWriter_def csv_Write_def validDelim_def ValidRune_def DefaultDelimiter_def
      processRecord_def getValueByDotPath_def HasSuffix_def)

text \<open>
  Claim C2, as amended. For the input \<open>[{"id":1,"tags":["x","y"]}]\<close> with the fields
  \<open>id\<close> and \<open>tags[*]\<close> (whatever their headers and whether or not the header is
  enabled), Convert fails: the array element at index 0 of path \<open>tags\<close> is a string, not
  a JSON object. No data row is written; the output is the header row or nothing.
\<close>

theorem scenarioA_fails_on_string_element:
  "Convert scenarioA_input
     \<lparr>Fields = [plain ''id'' h1, plain ''tags[*]'' h2], Delimiter = 44, AddHeader = b\<rparr> =
   (Some (ElementNotObject ''tags'' 0 (VString ''x'')),
    \<lparr>Comma = 44, written = (if b then [[h1, h2]] else [])\<rparr>)"
  by (simp add: Let_def Convert_def scenarioA_input_def scenarioA_record_def json_array_def plain_def
      csv_NewWriter_def csv_Write_def validDelim_def ValidRune_def DefaultDelimiter_def
      processRecord_def getValueByDotPath_def HasSuffix_def)

subsection \<open>C3: the default delimiter\<close>

text \<open>
  Claim C3 says that a Delimiter left at its zero value becomes the comma. Convert
  compares the delimiter with the comma, not with zero, so the zero value is kept and
  handed to the writer, which refuses every record: with the header enabled Convert
  fails at the header, for every input and field list; without it, at the first row.
\<close>

theorem zero_delimiter_is_not_defaulted:
  "Convert r \<lparr>Fields = fs, Delimiter = 0, AddHeader = True\<rparr> =
     (Some (WriteHeaderFailed InvalidDelim), \<lparr>Comma = 0, written = []\<rparr>) \<and>
   Convert (json_array [Elem (VMap scenarioC_record)])
      \<lparr>Fields = scenarioC_fields, Delimiter = 0, AddHeader = False\<rparr> =
     (Some (WriteRowFailed InvalidDelim), \<lparr>Comma = 0, written = []\<rparr>)"
  by (simp add: Let_def Convert_def csv_NewWriter_def csv_Write_def validDelim_def
      scenarioC_record_def scenarioC_fields_def json_array_def plain_def
      processRecord_def getValueByDotPath_def HasSuffix_def fieldCell_def fieldValue_def)

subsection \<open>C4: the default of AddHeader\<close>

text \<open>
  Claim C4 says that an AddHeader left at its zero value (\<open>false\<close>) enables the header.
  Convert sets \<open>addHeader\<close> to \<open>true\<close> and back to \<open>false\<close> when the option is
  \<open>false\<close>: on Scenario C with AddHeader unset the output is the two data rows, with
  no header row before them.
\<close>

theorem unset_AddHeader_writes_no_header:
  "Convert (json_array [Elem (VMap scenarioC_record)])
      \<lparr>Fields = scenarioC_fields, Delimiter = 44, AddHeader = False\<rparr> =
     (None, \<lparr>Comma = 44, written = [[''1'', ''a''], [''1'', ''c'']]\<rparr>)"
  by (simp add: Let_def Convert_def csv_NewWriter_def csv_Write_def validDelim_def ValidRune_def
      DefaultDelimiter_def scenarioC_record_def scenarioC_fields_def json_array_def plain_def
      processRecord_def getValueByDotPath_def HasSuffix_def fieldCell_def fieldValue_def)

subsection \<open>C5: inputs that are not an array\<close>




subsection \<open>C6: unresolvable paths\<close>

text \<open>
  Claim C6 says that the resolver gives \<open>nil\<close> whenever the current value is not a map
  before the path is exhausted. With exactly one key left it gives the value itself:
  on \<open>{"a":5}\<close> the path \<open>a.b\<close> resolves to \<open>5\<close>, while on \<open>{"a":null}\<close> it resolves
  to \<open>nil\<close>; in the output the cell of \<open>a.b\<close> is \<open>5\<close>, not the empty string.
\<close>

theorem resolver_returns_scalar_for_longer_path:
  "getValueByDotPath [(''a'', VNumber ''5'')] ''a.b'' = Inr (VNumber ''5'') \<and>
   getValueByDotPath [(''a'', VNil)] ''a.b'' = Inr VNil \<and>
   Convert (json_array [Elem (VMap [(''a'', VNumber ''5''), (''items'', VSlice [VMap []])])])
      \<lparr>Fields = [plain ''a.b'' ''AB'', plain ''items[*].x'' ''X''], Delimiter = 44, AddHeader = False\<rparr> =
     (None, \<lparr>Comma = 44, written = [[''5'', '''']]\<rparr>)"
  by (simp add: Let_def Convert_def csv_NewWriter_def csv_Write_def validDelim_def ValidRune_def
      DefaultDelimiter_def json_array_def plain_def
      processRecord_def getValueByDotPath_def HasSuffix_def fieldCell_def fieldValue_def)

subsection \<open>C7: rendering of numbers\<close>

text \<open>
  Against C7 as stated. The number \<open>5.00\<close> of the input is rendered as \<open>5.00\<close>.
\<close>

theorem trailing_zeros_counterexample:
  "Convert (json_array [Elem (VMap price_record)])
      \<lparr>Fields = price_fields, Delimiter = 44, AddHeader = False\<rparr> =
     (None, \<lparr>Comma = 44, written = [[''5.00'']]\<rparr>)"
  by (simp add: Let_def Convert_def csv_NewWriter_def csv_Write_def validDelim_def ValidRune_def
      DefaultDelimiter_def json_array_def plain_def price_record_def price_fields_def
      processRecord_def getValueByDotPath_def HasSuffix_def fieldCell_def fieldValue_def)

text \<open>
  Claim C7, as amended. Every numeric leaf value that reaches the output untransformed
  is rendered as the text of its literal in the input, digit for digit: an integer
  literal has no decimal point, and a literal with a fractional part keeps the digits
  it was written with, trailing zeros included.
\<close>

theorem number_renders_as_literal:
  assumes row: "buildRow fs originalRecord itemData = Inr row"
    and i: "i < length fs"
    and tr: "Transformer (fs ! i) = None"
    and num: "fieldValue (fs ! i) originalRecord itemData = Inr (VNumber literal)"
  shows "row ! i = literal"
proof -
  from buildRow_cells [OF row] i
  have "fieldCell (fs ! i) originalRecord itemData = Inr (row ! i)" by simp
  with tr num show ?thesis by (simp add: fieldCell_def)
qed

theorem number_renders_as_literal_witness:
  "buildRow price_fields price_record [(''price'', VNumber ''5.00'')] = Inr [''5.00''] \<and>
   (0::nat) < length price_fields \<and>
   Transformer (price_fields ! 0) = None \<and>
   fieldValue (price_fields ! 0) price_record [(''price'', VNumber ''5.00'')] = Inr (VNumber ''5.00'') \<and>
   [''5.00''] ! 0 = ''5.00''"
proof -
  have row: "buildRow price_fields price_record [(''price'', VNumber ''5.00'')] = Inr [''5.00'']"
    by (simp add: price_fields_def plain_def fieldCell_def fieldValue_def getValueByDotPath_def)
  have i: "(0::nat) < length price_fields" by (simp add: price_fields_def)
  have tr: "Transformer (price_fields ! 0) = None" by (simp add: price_fields_def plain_def)
  have num: "fieldValue (price_fields ! 0) price_record [(''price'', VNumber ''5.00'')] = Inr (VNumber ''5.00'')"
    by (simp add: price_fields_def plain_def fieldValue_def getValueByDotPath_def)
  from number_renders_as_literal [OF row i tr num] row i tr num show ?thesis by simp
qed

subsection \<open>C8: records without rows\<close>



subsection \<open>C9: parent values are repeated\<close>

text \<open>
  Claim C9. For every source record and every field whose JSONPath has no \<open>[*]\<close>, the
  cell of that field is the same in all rows written for that record (the rows that
  processRecord appends to the writer). Transformers are functions here, hence pure.
\<close>

theorem parent_value_duplication:
  assumes run: "processRecord fs flattenArrayPath originalRecord w = (e, w')"
    and r1: "r1 \<in> set (drop (length (written w)) (written w'))"
    and r2: "r2 \<in> set (drop (length (written w)) (written w'))"
    and i: "i < length fs"
    and nomarker: "Index (JSONPath (fs ! i)) ''[*]'' = None"
  shows "r1 ! i = r2 ! i"
proof -
  from processRecord_rows [OF run] obtain rows where
    w: "written w' = written w @ rows"
    and b: "\<forall>row \<in> set rows. \<exists>itemData. buildRow fs originalRecord itemData = Inr row"
    by blast
  from r1 r2 w have "r1 \<in> set rows" "r2 \<in> set rows" by simp_all
  with b obtain it1 it2 where
    b1: "buildRow fs originalRecord it1 = Inr r1" and b2: "buildRow fs originalRecord it2 = Inr r2"
    by blast
  from buildRow_cells [OF b1] i have c1: "fieldCell (fs ! i) originalRecord it1 = Inr (r1 ! i)" by simp
  from buildRow_cells [OF b2] i have c2: "fieldCell (fs ! i) originalRecord it2 = Inr (r2 ! i)" by simp
  from fieldCell_no_marker [OF nomarker, of originalRecord it1 it2] c1 c2 show ?thesis by simp
qed

theorem parent_value_duplication_witness:
  "processRecord scenarioC_fields ''items'' scenarioC_record \<lparr>Comma = 44, written = [[''ID'', ''Name'']]\<rparr> =
     (None, \<lparr>Comma = 44, written = [[''ID'', ''Name''], [''1'', ''a''], [''1'', ''c'']]\<rparr>) \<and>
   Index (JSONPath (scenarioC_fields ! 0)) ''[*]'' = None \<and>
   [''1'', ''a''] ! 0 = [''1'', ''c''] ! 0"
proof -
  let ?w = "\<lparr>Comma = 44, written = [[''ID'', ''Name'']]\<rparr>"
  let ?w' = "\<lparr>Comma = 44, written = [[''ID'', ''Name''], [''1'', ''a''], [''1'', ''c'']]\<rparr>"
  have run: "processRecord scenarioC_fields ''items'' scenarioC_record ?w = (None, ?w')"
    by (simp add: scenarioC_fields_def scenarioC_record_def plain_def processRecord_def
        getValueByDotPath_def fieldCell_def fieldValue_def csv_Write_def validDelim_def ValidRune_def)
  have r1: "[''1'', ''a''] \<in> set (drop (length (written ?w)) (written ?w'))" by simp
  have r2: "[''1'', ''c''] \<in> set (drop (length (written ?w)) (written ?w'))" by simp
  have i: "0 < length scenarioC_fields" by (simp add: scenarioC_fields_def)
  have nm: "Index (JSONPath (scenarioC_fields ! 0)) ''[*]'' = None"
    by (simp add: scenarioC_fields_def plain_def)
  from parent_value_duplication [OF run r1 r2 i nm] run nm show ?thesis by simp
qed

subsection \<open>C10: transformers and unresolvable paths\<close>

text \<open>
  Claim C10 says that the transformer of a field is called with \<open>nil\<close> whenever the
  field's path cannot be resolved or its value is null. When the value handed over by
  the resolver is \<open>nil\<close> this is so (lemma \<open>transformer_on_nil_value\<close>): the paths
  \<open>a.b.c\<close> and \<open>missing\<close> below give "Null Array". But the resolver gives the value
  itself when it meets a value that is not a map with exactly one key left (see C6):
  on \<open>{"a":5,"t":true}\<close> the transformer of path \<open>a.b\<close> is called with \<open>5\<close> and
  that of \<open>t.u\<close> with \<open>true\<close>, and the cells are "Unexpected Type: json.Number" and
  "Yes".
\<close>

theorem transformer_receives_scalar_on_unresolvable_path:
  "fieldValue \<lparr>JSONPath = ''a.b'', CSVHeader = ''AB'', Transformer = Some ItemsSummaryTransformer\<rparr>
      [(''a'', VNumber ''5''), (''t'', VBool True), (''items'', VSlice [VMap []])] [] =
     Inr (VNumber ''5'') \<and>
   Convert (json_array [Elem (VMap [(''a'', VNumber ''5''), (''t'', VBool True), (''items'', VSlice [VMap []])])])
      \<lparr>Fields = [\<lparr>JSONPath = ''a.b'', CSVHeader = ''AB'', Transformer = Some ItemsSummaryTransformer\<rparr>,
                 \<lparr>JSONPath = ''t.u'', CSVHeader = ''TU'', Transformer = Some BoolToYesNo\<rparr>,
                 \<lparr>JSONPath = ''a.b.c'', CSVHeader = ''ABC'', Transformer = Some ItemsSummaryTransformer\<rparr>,
                 \<lparr>JSONPath = ''missing'', CSVHeader = ''M'', Transformer = Some ItemsSummaryTransformer\<rparr>,
                 plain ''items[*].x'' ''X''],
       Delimiter = 44, AddHeader = False\<rparr> =
     (None, \<lparr>Comma = 44,
             written = [[''Unexpected Type: json.Number'', ''Yes'', ''Null Array'', ''Null Array'', '''']]\<rparr>)"
  by (simp add: Let_def Convert_def csv_NewWriter_def csv_Write_def validDelim_def ValidRune_def
      DefaultDelimiter_def json_array_def plain_def
      processRecord_def getValueByDotPath_def HasSuffix_def fieldCell_def fieldValue_def)

end
